theory Spec2Isabelle
  imports Complex_Main "HOL-Library.Sublist"
begin

section \<open>Decoded JSON values and the Python operations applied to them\<close>

text \<open>
  \<^verbatim>\<open>response.json()\<close> yields Python values: \<^verbatim>\<open>None\<close>, \<^verbatim>\<open>bool\<close>, \<^verbatim>\<open>int\<close> (unbounded),
  \<^verbatim>\<open>float\<close>, \<^verbatim>\<open>str\<close>, \<^verbatim>\<open>list\<close> and \<^verbatim>\<open>dict\<close> with string keys. A dict is an
  association list in insertion order, looked up with \<open>map_of\<close>. A float carries the
  rational it denotes; everything that depends on IEEE rounding or on the shortest
  decimal representation is taken from the runtime record below, never computed on
  the rational. Strings are sequences of code points below 256.
\<close>

datatype json =
    JNull
  | JBool bool
  | JInt int
  | JFloat rat
  | JStr string
  | JArr "json list"
  | JObj "(string \<times> json) list"

type_synonym obj = "(string \<times> json) list"

text \<open>The exceptions the two tools can raise.\<close>

datatype error = KeyError | TypeError | AttributeError | IndexError | ValueError | OverflowError

text \<open>Sequencing of computations that may raise: the first exception wins.\<close>

definition bind_r :: "error + 'a \<Rightarrow> ('a \<Rightarrow> error + 'b) \<Rightarrow> error + 'b" where
  "bind_r m f = (case m of Inl e \<Rightarrow> Inl e | Inr x \<Rightarrow> f x)"

fun map_r :: "('a \<Rightarrow> error + 'b) \<Rightarrow> 'a list \<Rightarrow> error + 'b list" where
  "map_r f [] = Inr []"
| "map_r f (x # xs) = bind_r (f x) (\<lambda>y. bind_r (map_r f xs) (\<lambda>ys. Inr (y # ys)))"

text \<open>\<^verbatim>\<open>datetime\<close> fields that the format string reads.\<close>

record datetime =
  year :: int
  month :: nat
  day :: nat
  hour :: nat
  minute :: nat

text \<open>
  What the process is run with. \<open>getenv_key\<close> is \<^verbatim>\<open>os.getenv("OPENWEATHER_API_KEY")\<close>.
  \<open>http_get url headers\<close> is the decoded body of \<^verbatim>\<open>client.get\<close> followed by
  \<^verbatim>\<open>raise_for_status\<close> and \<^verbatim>\<open>json()\<close>, or \<open>None\<close> when any of the three raised.
  The other fields are routines of the Python runtime: \<open>float_repr\<close> is \<^verbatim>\<open>repr\<close> of a
  float, \<open>str_repr\<close> is \<^verbatim>\<open>repr\<close> of a string, \<open>str_title\<close> is \<^verbatim>\<open>str.title\<close> (it
  depends on the Unicode case tables), \<open>fromtimestamp\<close> is \<^verbatim>\<open>datetime.fromtimestamp\<close>
  in the local time zone of the process, with its range errors, and \<open>float_bucket x\<close>
  is \<^verbatim>\<open>int((x + 11.25) / 22.5)\<close> in double precision (it raises on an infinity or a
  NaN); \<open>int_to_float\<close> is the conversion of a Python int to a float.
\<close>

record runtime =
  getenv_key :: "string option"
  http_get :: "string \<Rightarrow> (string \<times> string) list \<Rightarrow> obj option"
  float_repr :: "rat \<Rightarrow> string"
  str_repr :: "string \<Rightarrow> string"
  str_title :: "string \<Rightarrow> string"
  fromtimestamp :: "rat \<Rightarrow> error + datetime"
  int_to_float :: "int \<Rightarrow> error + rat"
  float_bucket :: "rat \<Rightarrow> error + int"

subsection \<open>Truthiness, subscripting, \<^verbatim>\<open>.get\<close>, iteration\<close>

fun truthy :: "json \<Rightarrow> bool" where
  "truthy JNull = False"
| "truthy (JBool b) = b"
| "truthy (JInt i) = (i \<noteq> 0)"
| "truthy (JFloat q) = (q \<noteq> 0)"
| "truthy (JStr s) = (s \<noteq> [])"
| "truthy (JArr xs) = (xs \<noteq> [])"
| "truthy (JObj kvs) = (kvs \<noteq> [])"

text \<open>\<^verbatim>\<open>x[k]\<close> for a string \<open>k\<close>: only a dict accepts it.\<close>

fun subscript :: "json \<Rightarrow> string \<Rightarrow> error + json" where
  "subscript (JObj kvs) k = (case map_of kvs k of None \<Rightarrow> Inl KeyError | Some v \<Rightarrow> Inr v)"
| "subscript _ k = Inl TypeError"

text \<open>\<^verbatim>\<open>x[0]\<close>: the keys of a decoded dict are strings, so \<open>0\<close> is never one.\<close>

fun subscript0 :: "json \<Rightarrow> error + json" where
  "subscript0 (JArr []) = Inl IndexError"
| "subscript0 (JArr (x # xs)) = Inr x"
| "subscript0 (JStr []) = Inl IndexError"
| "subscript0 (JStr (c # cs)) = Inr (JStr [c])"
| "subscript0 (JObj kvs) = Inl KeyError"
| "subscript0 _ = Inl TypeError"

text \<open>\<^verbatim>\<open>d.get(k, default)\<close> on a dict.\<close>

definition dict_get :: "obj \<Rightarrow> string \<Rightarrow> json \<Rightarrow> json" where
  "dict_get kvs k d = (case map_of kvs k of None \<Rightarrow> d | Some v \<Rightarrow> v)"

text \<open>\<^verbatim>\<open>x.get(k, default)\<close> on any value: only a dict has the method.\<close>

fun method_get :: "json \<Rightarrow> string \<Rightarrow> json \<Rightarrow> error + json" where
  "method_get (JObj kvs) k d = Inr (dict_get kvs k d)"
| "method_get _ k d = Inl AttributeError"

text \<open>\<^verbatim>\<open>for x in v\<close>: a list gives its elements, a string its characters, a dict its keys.\<close>

fun iterate :: "json \<Rightarrow> error + json list" where
  "iterate (JArr xs) = Inr xs"
| "iterate (JStr s) = Inr (map (\<lambda>c. JStr [c]) s)"
| "iterate (JObj kvs) = Inr (map (\<lambda>kv. JStr (fst kv)) kvs)"
| "iterate _ = Inl TypeError"

text \<open>
  \<^verbatim>\<open>v[:5]\<close>. A dict refuses a slice (\<^verbatim>\<open>TypeError\<close>, unhashable, before Python 3.12
  and \<^verbatim>\<open>KeyError\<close> from 3.12 on; the model takes the former).
\<close>

fun slice5 :: "json \<Rightarrow> error + json" where
  "slice5 (JArr xs) = Inr (JArr (take 5 xs))"
| "slice5 (JStr s) = Inr (JStr (take 5 s))"
| "slice5 _ = Inl TypeError"

subsection \<open>Rendering a value inside an f-string\<close>

definition digit_char :: "nat \<Rightarrow> char" where
  "digit_char n = ''0123456789'' ! n"

fun nat_str :: "nat \<Rightarrow> string" where
  "nat_str n = (if n < 10 then [digit_char n] else nat_str (n div 10) @ [digit_char (n mod 10)])"

definition int_str :: "int \<Rightarrow> string" where
  "int_str i = (if i < 0 then CHR ''-'' # nat_str (nat (- i)) else nat_str (nat i))"

text \<open>\<^verbatim>\<open>sep.join(xs)\<close>.\<close>

fun join :: "string \<Rightarrow> string list \<Rightarrow> string" where
  "join sep [] = []"
| "join sep [x] = x"
| "join sep (x # y # ys) = x @ sep @ join sep (y # ys)"

text \<open>
  \<^verbatim>\<open>repr(v)\<close> and \<^verbatim>\<open>str(v)\<close>; a replacement field \<^verbatim>\<open>{v}\<close> with no format spec puts
  \<^verbatim>\<open>str(v)\<close> into the string. The two differ at a string only.
\<close>

fun py_repr :: "runtime \<Rightarrow> json \<Rightarrow> string" where
  "py_repr w JNull = ''None''"
| "py_repr w (JBool b) = (if b then ''True'' else ''False'')"
| "py_repr w (JInt i) = int_str i"
| "py_repr w (JFloat q) = float_repr w q"
| "py_repr w (JStr s) = str_repr w s"
| "py_repr w (JArr xs) = ''['' @ join '', '' (map (py_repr w) xs) @ '']''"
| "py_repr w (JObj kvs) =
     ''{'' @ join '', '' (map (\<lambda>kv. str_repr w (fst kv) @ '': '' @ py_repr w (snd kv)) kvs) @ ''}''"

definition py_str :: "runtime \<Rightarrow> json \<Rightarrow> string" where
  "py_str w v = (case v of JStr s \<Rightarrow> s | _ \<Rightarrow> py_repr w v)"

section \<open>The fetch layer\<close>

text \<open>
  A tool returns its value (or the exception that escapes it) together with the list
  of URLs it requested over the network, in order.
\<close>

definition NWS_API_BASE :: string where
  "NWS_API_BASE = ''https://api.weather.gov''"

definition OPENWEATHER_API_BASE :: string where
  "OPENWEATHER_API_BASE = ''https://api.openweathermap.org/data/2.5''"

definition USER_AGENT :: string where
  "USER_AGENT = ''weather-app/1.0''"

definition get_openweather_api_key :: "runtime \<Rightarrow> string option" where
  "get_openweather_api_key w = getenv_key w"

definition make_nws_request :: "runtime \<Rightarrow> string \<Rightarrow> obj option \<times> string list" where
  "make_nws_request w url =
     (http_get w url [(''User-Agent'', USER_AGENT), (''Accept'', ''application/geo+json'')], [url])"

definition make_openweather_request :: "runtime \<Rightarrow> string \<Rightarrow> obj option \<times> string list" where
  "make_openweather_request w url = (http_get w url [], [url])"

section \<open>Alerts\<close>

definition format_alert :: "runtime \<Rightarrow> json \<Rightarrow> error + string" where
  "format_alert w feature =
     bind_r (subscript feature ''properties'') (\<lambda>props.
     bind_r (method_get props ''event'' (JStr ''Unknown'')) (\<lambda>event.
     bind_r (method_get props ''areaDesc'' (JStr ''Unknown'')) (\<lambda>area.
     bind_r (method_get props ''severity'' (JStr ''Unknown'')) (\<lambda>severity.
     bind_r (method_get props ''description'' (JStr ''No description available'')) (\<lambda>description.
     bind_r (method_get props ''instruction'' (JStr ''No specific instructions provided'')) (\<lambda>instruction.
     Inr (''\<newline>Event: '' @ py_str w event @
          ''\<newline>Area: '' @ py_str w area @
          ''\<newline>Severity: '' @ py_str w severity @
          ''\<newline>Description: '' @ py_str w description @
          ''\<newline>Instructions: '' @ py_str w instruction @
          ''\<newline>'')))))))"

definition get_alerts :: "runtime \<Rightarrow> string \<Rightarrow> (error + string) \<times> string list" where
  "get_alerts w state =
     (let url = NWS_API_BASE @ ''/alerts/active/area/'' @ state;
          (data, calls) = make_nws_request w url
      in case data of
           None \<Rightarrow> (Inr ''Unable to fetch alerts or no alerts found.'', calls)
         | Some body \<Rightarrow>
             if body = [] \<or> map_of body ''features'' = None
             then (Inr ''Unable to fetch alerts or no alerts found.'', calls)
             else let features = the (map_of body ''features'') in
               if \<not> truthy features
               then (Inr ''No active alerts for this state.'', calls)
               else (bind_r (iterate features) (\<lambda>fs.
                     bind_r (map_r (format_alert w) fs) (\<lambda>alerts.
                     Inr (join ''\<newline>---\<newline>'' alerts))), calls))"

section \<open>Forecast\<close>

subsection \<open>The wind direction\<close>

definition directions :: "string list" where
  "directions = [''N'', ''NNE'', ''NE'', ''ENE'', ''E'', ''ESE'', ''SE'', ''SSE'',
                 ''S'', ''SSW'', ''SW'', ''WSW'', ''W'', ''WNW'', ''NW'', ''NNW'']"

text \<open>\<^verbatim>\<open>int(x)\<close> of a number: truncation towards zero.\<close>

definition py_int :: "rat \<Rightarrow> int" where
  "py_int q = (if 0 \<le> q then \<lfloor>q\<rfloor> else \<lceil>q\<rceil>)"

text \<open>
  \<^verbatim>\<open>int((wind_deg + 11.25) / 22.5)\<close>. The sum and the quotient are double-precision
  operations. For an int \<open>d\<close> with \<open>\<bar>d\<bar> < 2 ^ 50\<close> the sum is exact, and the exact
  quotient \<open>(4 * d + 45) / 90\<close> lies at least \<open>1 / 90\<close> from every integer while the
  rounding of the division moves it by less than \<open>1 / 128\<close>: the truncation of the
  double is the truncation of the exact quotient, which the model computes. Outside
  that range, and for a float, the value comes from the runtime. \<^verbatim>\<open>True\<close> is the
  int 1; any other type refuses \<^verbatim>\<open>+ 11.25\<close>.
\<close>

fun wind_bucket :: "runtime \<Rightarrow> json \<Rightarrow> error + int" where
  "wind_bucket w (JInt d) =
     (if \<bar>d\<bar> < 2 ^ 50 then Inr (py_int ((of_int d + 11.25) / 22.5))
      else bind_r (int_to_float w d) (float_bucket w))"
| "wind_bucket w (JBool b) = Inr (py_int ((of_int (if b then 1 else 0) + 11.25) / 22.5))"
| "wind_bucket w (JFloat q) = float_bucket w q"
| "wind_bucket w _ = Inl TypeError"

text \<open>
  \<^verbatim>\<open>directions[int((wind_deg + 11.25) / 22.5) % 16] if wind_deg else "N/A"\<close>.
  Python's \<^verbatim>\<open>%\<close> with a positive modulus is never negative, as \<open>mod\<close> on \<open>int\<close>.
\<close>

definition wind_direction :: "runtime \<Rightarrow> json \<Rightarrow> error + string" where
  "wind_direction w wind_deg =
     (if truthy wind_deg
      then bind_r (wind_bucket w wind_deg) (\<lambda>k. Inr (directions ! nat (k mod 16)))
      else Inr ''N/A'')"

subsection \<open>The time stamp\<close>

text \<open>\<^verbatim>\<open>datetime.fromtimestamp(v)\<close>: a number is accepted (a bool is an int).\<close>

fun py_fromtimestamp :: "runtime \<Rightarrow> json \<Rightarrow> error + datetime" where
  "py_fromtimestamp w (JInt i) = fromtimestamp w (of_int i)"
| "py_fromtimestamp w (JBool b) = fromtimestamp w (if b then 1 else 0)"
| "py_fromtimestamp w (JFloat q) = fromtimestamp w q"
| "py_fromtimestamp w _ = Inl TypeError"

definition is_leap :: "int \<Rightarrow> bool" where
  "is_leap y = (y mod 4 = 0 \<and> (y mod 100 \<noteq> 0 \<or> y mod 400 = 0))"

definition days_before_year :: "int \<Rightarrow> int" where
  "days_before_year y = (y - 1) * 365 + (y - 1) div 4 - (y - 1) div 100 + (y - 1) div 400"

definition days_before_month :: "int \<Rightarrow> nat \<Rightarrow> int" where
  "days_before_month y m =
     [0, 31, 59, 90, 120, 151, 181, 212, 243, 273, 304, 334] ! (m - 1)
       + (if 2 < m \<and> is_leap y then 1 else 0)"

text \<open>\<^verbatim>\<open>date.weekday()\<close>: Monday is 0.\<close>

definition weekday :: "datetime \<Rightarrow> nat" where
  "weekday dt =
     nat ((days_before_year (year dt) + days_before_month (year dt) (month dt)
            + int (day dt) + 6) mod 7)"

definition day_names :: "string list" where
  "day_names = [''Monday'', ''Tuesday'', ''Wednesday'', ''Thursday'', ''Friday'',
                ''Saturday'', ''Sunday'']"

definition month_names :: "string list" where
  "month_names = [''January'', ''February'', ''March'', ''April'', ''May'', ''June'', ''July'',
                  ''August'', ''September'', ''October'', ''November'', ''December'']"

definition pad2 :: "nat \<Rightarrow> string" where
  "pad2 n = (if n < 10 then CHR ''0'' # nat_str n else nat_str n)"

text \<open>\<^verbatim>\<open>dt.strftime('%A, %B %d at %I:%M %p')\<close> in the C locale.\<close>

definition strftime :: "datetime \<Rightarrow> string" where
  "strftime dt =
     day_names ! weekday dt @ '', '' @ month_names ! (month dt - 1) @ '' '' @ pad2 (day dt)
       @ '' at '' @ pad2 (if hour dt mod 12 = 0 then 12 else hour dt mod 12)
       @ '':'' @ pad2 (minute dt) @ '' '' @ (if hour dt < 12 then ''AM'' else ''PM'')"

text \<open>\<^verbatim>\<open>v.title()\<close>: only a string has the method.\<close>

fun py_title :: "runtime \<Rightarrow> json \<Rightarrow> error + string" where
  "py_title w (JStr s) = Inr (str_title w s)"
| "py_title w _ = Inl AttributeError"

subsection \<open>One period, and the tool\<close>

text \<open>The body of the loop over \<^verbatim>\<open>periods[:5]\<close>: the block appended to \<^verbatim>\<open>forecasts\<close>.\<close>

definition forecast_period :: "runtime \<Rightarrow> json \<Rightarrow> error + string" where
  "forecast_period w period =
     bind_r (subscript period ''dt'') (\<lambda>dtv.
     bind_r (py_fromtimestamp w dtv) (\<lambda>dt.
     bind_r (subscript period ''main'') (\<lambda>main1.
     bind_r (subscript main1 ''temp'') (\<lambda>temp.
     bind_r (subscript period ''main'') (\<lambda>main2.
     bind_r (subscript main2 ''feels_like'') (\<lambda>feels_like.
     bind_r (subscript period ''main'') (\<lambda>main3.
     bind_r (subscript main3 ''humidity'') (\<lambda>humidity.
     bind_r (subscript period ''weather'') (\<lambda>weather.
     bind_r (subscript0 weather) (\<lambda>weather0.
     bind_r (subscript weather0 ''description'') (\<lambda>description.
     bind_r (py_title w description) (\<lambda>weather_desc.
     bind_r (method_get period ''wind'' (JObj [])) (\<lambda>wind1.
     bind_r (method_get wind1 ''speed'' (JInt 0)) (\<lambda>wind_speed.
     bind_r (method_get period ''wind'' (JObj [])) (\<lambda>wind2.
     bind_r (method_get wind2 ''deg'' (JInt 0)) (\<lambda>wind_deg.
     bind_r (wind_direction w wind_deg) (\<lambda>wind_dir.
     Inr (''\<newline>'' @ strftime dt @ '':'' @
          ''\<newline>Temperature: '' @ py_str w temp @ [CHR 0xB0] @ ''C (feels like '' @
             py_str w feels_like @ [CHR 0xB0] @ ''C)'' @
          ''\<newline>Weather: '' @ weather_desc @
          ''\<newline>Humidity: '' @ py_str w humidity @ ''%'' @
          ''\<newline>Wind: '' @ py_str w wind_speed @ '' m/s '' @ wind_dir @
          ''\<newline>''))))))))))))))))))"

definition no_key_message :: string where
  "no_key_message =
     ''Error: OPENWEATHER_API_KEY not found in .env file. Please add it to your .env file.''"

definition get_forecast :: "runtime \<Rightarrow> rat \<Rightarrow> rat \<Rightarrow> (error + string) \<times> string list" where
  "get_forecast w latitude longitude =
     (case get_openweather_api_key w of
        None \<Rightarrow> (Inr no_key_message, [])
      | Some api_key \<Rightarrow>
          if api_key = [] then (Inr no_key_message, [])
          else
            let forecast_url = OPENWEATHER_API_BASE @ ''/forecast?lat='' @ float_repr w latitude
                  @ ''&lon='' @ float_repr w longitude @ ''&appid='' @ api_key @ ''&units=metric'';
                (forecast_data, calls) = make_openweather_request w forecast_url
            in case forecast_data of
                 None \<Rightarrow> (Inr ''Unable to fetch forecast data for this location.'', calls)
               | Some body \<Rightarrow>
                   if body = []
                   then (Inr ''Unable to fetch forecast data for this location.'', calls)
                   else if map_of body ''cod'' \<noteq> None \<and> the (map_of body ''cod'') \<noteq> JStr ''200''
                   then (Inr (''Unable to fetch forecast: ''
                                @ py_str w (dict_get body ''message'' (JStr ''Unknown error''))), calls)
                   else
                     (bind_r (method_get (dict_get body ''city'' (JObj [])) ''name'' (JStr ''Unknown''))
                        (\<lambda>city_name.
                      bind_r (method_get (dict_get body ''city'' (JObj [])) ''country'' (JStr []))
                        (\<lambda>country.
                      let location_info = ''Forecast for '' @ py_str w city_name
                            @ (if truthy country then '', '' @ py_str w country else []);
                          periods = dict_get body ''list'' (JArr [])
                      in if \<not> truthy periods then Inr ''No forecast data available.''
                         else
                           bind_r (slice5 periods) (\<lambda>sl.
                           bind_r (iterate sl) (\<lambda>ps.
                           bind_r (map_r (forecast_period w) ps) (\<lambda>blocks.
                           Inr (join ''\<newline>''
                                  (location_info # replicate 50 CHR ''='' # blocks))))))), calls))"

section \<open>The tools as the specification words them\<close>

text \<open>
  The properties object of an alert feature, when the feature is an object that has
  one.
\<close>

definition alert_props :: "json \<Rightarrow> obj option" where
  "alert_props feature =
     (case feature of
        JObj kvs \<Rightarrow> (case map_of kvs ''properties'' of Some (JObj props) \<Rightarrow> Some props | _ \<Rightarrow> None)
      | _ \<Rightarrow> None)"

text \<open>A property as text, or the placeholder when the key is missing.\<close>

definition prop_or :: "runtime \<Rightarrow> obj \<Rightarrow> string \<Rightarrow> string \<Rightarrow> string" where
  "prop_or w props k placeholder =
     (case map_of props k of None \<Rightarrow> placeholder | Some v \<Rightarrow> py_str w v)"

definition alert_block :: "runtime \<Rightarrow> obj \<Rightarrow> string" where
  "alert_block w props =
     ''\<newline>Event: '' @ prop_or w props ''event'' ''Unknown'' @
     ''\<newline>Area: '' @ prop_or w props ''areaDesc'' ''Unknown'' @
     ''\<newline>Severity: '' @ prop_or w props ''severity'' ''Unknown'' @
     ''\<newline>Description: '' @ prop_or w props ''description'' ''No description available'' @
     ''\<newline>Instructions: '' @ prop_or w props ''instruction'' ''No specific instructions provided'' @
     ''\<newline>''"

text \<open>
  An optional sub-object (\<open>city\<close> of a body, \<open>wind\<close> of a period): absent, it is read as
  the empty object; present, it has to be an object.
\<close>

definition obj_or_empty :: "json option \<Rightarrow> obj option" where
  "obj_or_empty v = (case v of None \<Rightarrow> Some [] | Some (JObj kvs) \<Rightarrow> Some kvs | Some _ \<Rightarrow> None)"

text \<open>
  The header line: the city name, and the country when there is one.
\<close>

definition location_line :: "runtime \<Rightarrow> obj \<Rightarrow> string" where
  "location_line w city =
     ''Forecast for '' @ prop_or w city ''name'' ''Unknown'' @
       (case map_of city ''country'' of
          None \<Rightarrow> []
        | Some c \<Rightarrow> if truthy c then '', '' @ py_str w c else [])"

text \<open>
  A forecast period of the data model: a time stamp the clock accepts, temperature,
  feels-like temperature and humidity under \<open>main\<close>, a description string in the first
  entry of \<open>weather\<close>, and an optional \<open>wind\<close> object.
\<close>

record period_view =
  p_time :: datetime
  p_temp :: json
  p_feels_like :: json
  p_humidity :: json
  p_description :: string
  p_wind :: obj

definition period_fields :: "runtime \<Rightarrow> json \<Rightarrow> period_view option" where
  "period_fields w period =
     (case period of
        JObj p \<Rightarrow>
          (case (map_of p ''dt'', map_of p ''main'', map_of p ''weather'',
                 obj_or_empty (map_of p ''wind'')) of
             (Some tv, Some (JObj m), Some (JArr (JObj wd # rest)), Some ws) \<Rightarrow>
               (case (py_fromtimestamp w tv, map_of m ''temp'', map_of m ''feels_like'',
                      map_of m ''humidity'', map_of wd ''description'') of
                  (Inr dt, Some temp, Some feels, Some hum, Some (JStr desc)) \<Rightarrow>
                    Some \<lparr>p_time = dt, p_temp = temp, p_feels_like = feels, p_humidity = hum,
                          p_description = desc, p_wind = ws\<rparr>
                | _ \<Rightarrow> None)
           | _ \<Rightarrow> None)
      | _ \<Rightarrow> None)"

text \<open>The block of a period, given the text of its wind direction.\<close>

definition period_block :: "runtime \<Rightarrow> period_view \<Rightarrow> string \<Rightarrow> string" where
  "period_block w v dir =
     ''\<newline>'' @ strftime (p_time v) @ '':'' @
     ''\<newline>Temperature: '' @ py_str w (p_temp v) @ [CHR 0xB0] @ ''C (feels like '' @
        py_str w (p_feels_like v) @ [CHR 0xB0] @ ''C)'' @
     ''\<newline>Weather: '' @ str_title w (p_description v) @
     ''\<newline>Humidity: '' @ py_str w (p_humidity v) @ ''%'' @
     ''\<newline>Wind: '' @ py_str w (dict_get (p_wind v) ''speed'' (JInt 0)) @ '' m/s '' @ dir @
     ''\<newline>''"

text \<open>
  The bucket as the specification writes it:
  \<open>round((degrees + 11.25) / 22.5) mod 16\<close>, with rounding to the nearest integer.
\<close>

definition spec_bucket :: "int \<Rightarrow> int" where
  "spec_bucket degrees = round ((of_int degrees + 11.25) / 22.5 :: rat) mod 16"

section \<open>A runtime to run the tools on\<close>

text \<open>
  The clock of this runtime knows the first day of the epoch in UTC and reports any
  other time stamp as out of range; its network answers every request with the same
  body.
\<close>

definition first_day :: "rat \<Rightarrow> error + datetime" where
  "first_day q =
     (if 0 \<le> q \<and> q < 86400
      then Inr \<lparr>year = 1970, month = 1, day = 1, hour = nat \<lfloor>q\<rfloor> div 3600,
                minute = nat \<lfloor>q\<rfloor> div 60 mod 60\<rparr>
      else Inl OverflowError)"

definition example_runtime :: "string option \<Rightarrow> obj option \<Rightarrow> runtime" where
  "example_runtime key body =
     \<lparr>getenv_key = key, http_get = (\<lambda>url headers. body),
      float_repr = (\<lambda>q. int_str \<lfloor>q\<rfloor> @ ''.0''),
      str_repr = (\<lambda>s. [CHR 0x27] @ s @ [CHR 0x27]),
      str_title = (\<lambda>s. s), fromtimestamp = first_day,
      int_to_float = (\<lambda>i. Inr (of_int i)),
      float_bucket = (\<lambda>q. Inr (py_int ((q + 11.25) / 22.5)))\<rparr>"

text \<open>A well-formed period at time stamp \<open>t\<close> with the given \<open>wind\<close> value.\<close>

definition period_at :: "int \<Rightarrow> json \<Rightarrow> json" where
  "period_at t wind =
     JObj [(''dt'', JInt t),
           (''main'', JObj [(''temp'', JInt 21), (''feels_like'', JInt 19), (''humidity'', JInt 60)]),
           (''weather'', JArr [JObj [(''description'', JStr ''light rain'')]]),
           (''wind'', wind)]"

text \<open>A body with a city and eight periods, ten minutes apart.\<close>

definition example_body :: obj where
  "example_body =
     [(''cod'', JStr ''200''),
      (''city'', JObj [(''name'', JStr ''Berlin''), (''country'', JStr ''DE'')]),
      (''list'', JArr (map (\<lambda>t. period_at t (JObj [])) [0, 600, 1200, 1800, 2400, 3000, 3600, 4200]))]"

section \<open>Auxiliary facts\<close>

lemma bind_r_Inr [simp]: "bind_r (Inr x) f = f x"
  by (simp add: bind_r_def)

lemma bind_r_Inl [simp]: "bind_r (Inl e) f = Inl e"
  by (simp add: bind_r_def)

lemma map_r_all_Inr:
  "\<forall>x\<in>set xs. f x = Inr (g x) \<Longrightarrow> map_r f xs = Inr (map g xs)"
  by (induction xs) simp_all

lemma py_str_JStr [simp]: "py_str w (JStr s) = s"
  by (simp add: py_str_def)

lemma py_str_dict_get: "py_str w (dict_get props k (JStr d)) = prop_or w props k d"
  by (simp add: dict_get_def prop_or_def split: option.splits)

lemma format_alert_props:
  assumes "alert_props feature = Some props"
  shows "format_alert w feature = Inr (alert_block w props)"
proof -
  from assms obtain kvs where f: "feature = JObj kvs"
    and p: "map_of kvs ''properties'' = Some (JObj props)"
    by (auto simp: alert_props_def split: json.splits option.splits)
  show ?thesis
    unfolding format_alert_def f
    by (simp add: p alert_block_def py_str_dict_get)
qed

lemma py_int_of_int_div:
  assumes "0 < b"
  shows "py_int (of_int a / of_int b) = (if 0 \<le> a then a div b else - ((- a) div b))"
proof -
  have pos: "(0 \<le> (of_int a / of_int b :: rat)) = (0 \<le> a)"
    using assms by (simp add: zero_le_divide_iff)
  have "\<lceil>of_int a / of_int b :: rat\<rceil> = - \<lfloor>of_int (- a) / of_int b :: rat\<rfloor>"
    unfolding ceiling_def by simp
  also have "\<dots> = - ((- a) div b)"
    by (simp only: floor_divide_of_int_eq)
  finally have c: "\<lceil>of_int a / of_int b :: rat\<rceil> = - ((- a) div b)" .
  show ?thesis
    unfolding py_int_def pos using c by (simp only: floor_divide_of_int_eq split: if_splits)
qed

lemma wind_quotient:
  "py_int ((of_int d + 11.25) / 22.5) =
     (if 0 \<le> 4 * d + 45 then (4 * d + 45) div 90 else - ((- (4 * d + 45)) div 90))"
proof -
  have q: "(of_int d + 11.25) / 22.5 = (of_int (4 * d + 45) / of_int 90 :: rat)"
    by (simp add: field_simps)
  show ?thesis
    unfolding q by (rule py_int_of_int_div) simp
qed

lemma wind_bucket_int:
  "\<bar>d\<bar> < 2 ^ 50 \<Longrightarrow> wind_bucket w (JInt d) =
     Inr (if 0 \<le> 4 * d + 45 then (4 * d + 45) div 90 else - ((- (4 * d + 45)) div 90))"
  by (simp only: wind_bucket.simps wind_quotient if_True)

lemma wind_index_range: "nat ((k::int) mod 16) < length directions"
  by (simp add: directions_def nat_less_iff)

lemma trunc_is_round:
  assumes d: "0 < d"
  shows "py_int ((of_int d + 11.25) / 22.5) = round (of_int d / 22.5 :: rat)"
proof -
  have e: "(of_int d + 11.25) / 22.5 = (of_int d / 22.5 :: rat) + 1 / 2"
    by (simp add: field_simps)
  have "0 \<le> ((of_int d + 11.25) / 22.5 :: rat)"
    using d by simp
  then have "py_int ((of_int d + 11.25) / 22.5) = \<lfloor>(of_int d + 11.25) / 22.5 :: rat\<rfloor>"
    by (simp only: py_int_def if_True)
  also have "\<dots> = \<lfloor>(of_int d / 22.5 :: rat) + 1 / 2\<rfloor>"
    by (simp only: e)
  finally show ?thesis
    by (simp only: round_def)
qed

lemma obj_or_empty_get:
  "obj_or_empty (map_of p k) = Some ws \<Longrightarrow> method_get (dict_get p k (JObj [])) k' d = Inr (dict_get ws k' d)"
  by (auto simp: obj_or_empty_def dict_get_def split: option.splits json.splits)

lemma forecast_period_view:
  assumes "period_fields w period = Some v"
  shows "forecast_period w period =
           bind_r (wind_direction w (dict_get (p_wind v) ''deg'' (JInt 0)))
             (\<lambda>dir. Inr (period_block w v dir))"
proof -
  from assms obtain p where per: "period = JObj p"
    by (auto simp: period_fields_def split: json.splits)
  from assms per obtain tv m wd rest ws where
    f1: "map_of p ''dt'' = Some tv" "map_of p ''main'' = Some (JObj m)"
        "map_of p ''weather'' = Some (JArr (JObj wd # rest))"
        "obj_or_empty (map_of p ''wind'') = Some ws"
    by (auto simp: period_fields_def split: option.splits json.splits list.splits)
  from assms per f1 obtain dt temp feels hum desc where
    f2: "py_fromtimestamp w tv = Inr dt" "map_of m ''temp'' = Some temp"
        "map_of m ''feels_like'' = Some feels" "map_of m ''humidity'' = Some hum"
        "map_of wd ''description'' = Some (JStr desc)"
    and v: "v = \<lparr>p_time = dt, p_temp = temp, p_feels_like = feels, p_humidity = hum,
                 p_description = desc, p_wind = ws\<rparr>"
    by (auto simp: period_fields_def split: option.splits json.splits sum.splits)
  have g: "\<And>k d. method_get (dict_get p ''wind'' (JObj [])) k d = Inr (dict_get ws k d)"
    using f1(4) by (rule obj_or_empty_get)
  show ?thesis
    unfolding forecast_period_def per
    by (simp add: f1 f2 g v period_block_def)
qed

lemma wind_direction_falsy: "\<not> truthy x \<Longrightarrow> wind_direction w x = Inr ''N/A''"
  by (simp add: wind_direction_def)

lemma wind_direction_int:
  "d \<noteq> 0 \<Longrightarrow> \<bar>d\<bar> < 2 ^ 50 \<Longrightarrow>
     wind_direction w (JInt d) = Inr (directions ! nat (py_int ((of_int d + 11.25) / 22.5) mod 16))"
  by (simp add: wind_direction_def)

lemma period_fields_period_at:
  "0 \<le> t \<Longrightarrow> t < 86400 \<Longrightarrow>
   period_fields (example_runtime key body) (period_at t (JObj ws)) =
     Some \<lparr>p_time = \<lparr>year = 1970, month = 1, day = 1, hour = nat t div 3600,
                      minute = nat t div 60 mod 60\<rparr>,
           p_temp = JInt 21, p_feels_like = JInt 19, p_humidity = JInt 60,
           p_description = ''light rain'', p_wind = ws\<rparr>"
  by (simp add: period_fields_def period_at_def obj_or_empty_def example_runtime_def first_day_def)

lemma floor_rat_numeral [simp]: "\<lfloor>numeral a / numeral b :: rat\<rfloor> = numeral a div numeral b"
proof -
  have "\<lfloor>of_int (numeral a) / of_int (numeral b) :: rat\<rfloor> = numeral a div numeral b"
    by (rule floor_divide_of_int_eq)
  then show ?thesis by simp
qed

lemma py_int_numeral_div [simp]: "py_int (numeral a / numeral b) = numeral a div numeral b"
  by (simp add: py_int_def)

lemma py_int_one_div [simp]: "py_int (1 / numeral b) = 1 div numeral b"
proof -
  have "\<lfloor>of_int 1 / of_int (numeral b) :: rat\<rfloor> = 1 div numeral b"
    by (rule floor_divide_of_int_eq)
  then show ?thesis by (simp add: py_int_def)
qed

lemma py_int_neg_numeral_div [simp]:
  "py_int (- (numeral a / numeral b)) = - (numeral a div numeral b)"
proof -
  have "py_int (of_int (- numeral a) / of_int (numeral b))
          = (if 0 \<le> (- numeral a :: int) then (- numeral a) div numeral b
             else - ((- (- numeral a)) div numeral b))"
    by (rule py_int_of_int_div) simp
  then show ?thesis by simp
qed

lemma period_block_example:
  "period_block (example_runtime key body)
     \<lparr>p_time = \<lparr>year = 1970, month = Suc 0, day = Suc 0, hour = 0, minute = 0\<rparr>,
      p_temp = JInt 21, p_feels_like = JInt 19, p_humidity = JInt 60,
      p_description = ''light rain'', p_wind = ws\<rparr> dir
   = ''\<newline>Thursday, January 01 at 12:00 AM:''
       @ ''\<newline>Temperature: 21'' @ [CHR 0xB0] @ ''C (feels like 19'' @ [CHR 0xB0] @ ''C)''
       @ ''\<newline>Weather: light rain\<newline>Humidity: 60%\<newline>Wind: ''
       @ py_str (example_runtime key body) (dict_get ws ''speed'' (JInt 0)) @ '' m/s '' @ dir
       @ ''\<newline>''"
  by (simp add: period_block_def strftime_def weekday_def days_before_year_def
        days_before_month_def is_leap_def day_names_def month_names_def pad2_def digit_char_def
        py_str_def int_str_def example_runtime_def)

lemma map_r_projr:
  "\<forall>x\<in>set xs. \<exists>s. f x = Inr s \<Longrightarrow> map_r f xs = Inr (map (\<lambda>x. projr (f x)) xs)"
  by (rule map_r_all_Inr) auto

lemma location_line_get:
  "location_line w city =
     ''Forecast for '' @ py_str w (dict_get city ''name'' (JStr ''Unknown''))
       @ (if truthy (dict_get city ''country'' (JStr []))
          then '', '' @ py_str w (dict_get city ''country'' (JStr [])) else [])"
  by (simp add: location_line_def prop_or_def dict_get_def split: option.splits)

lemma get_forecast_fetched:
  assumes "getenv_key w = Some api_key" and "api_key \<noteq> []"
    and "fst (make_openweather_request w
               (OPENWEATHER_API_BASE @ ''/forecast?lat='' @ float_repr w latitude @ ''&lon=''
                  @ float_repr w longitude @ ''&appid='' @ api_key @ ''&units=metric'')) = Some body"
    and "body \<noteq> []"
    and "map_of body ''cod'' = None \<or> map_of body ''cod'' = Some (JStr ''200'')"
    and "obj_or_empty (map_of body ''city'') = Some city"
  shows "fst (get_forecast w latitude longitude) =
           (if \<not> truthy (dict_get body ''list'' (JArr [])) then Inr ''No forecast data available.''
            else bind_r (slice5 (dict_get body ''list'' (JArr []))) (\<lambda>sl.
                 bind_r (iterate sl) (\<lambda>ps.
                 bind_r (map_r (forecast_period w) ps) (\<lambda>blocks.
                 Inr (join ''\<newline>'' (location_line w city # replicate 50 CHR ''='' # blocks))))))"
proof -
  have g: "\<And>k d. method_get (dict_get body ''city'' (JObj [])) k d = Inr (dict_get city k d)"
    using assms(6) by (rule obj_or_empty_get)
  from assms(5) show ?thesis
  proof
    assume "map_of body ''cod'' = None"
    with assms(1-4) show ?thesis
      by (simp add: get_forecast_def get_openweather_api_key_def make_openweather_request_def
            Let_def g location_line_get)
  next
    assume "map_of body ''cod'' = Some (JStr ''200'')"
    with assms(1-4) show ?thesis
      by (simp add: get_forecast_def get_openweather_api_key_def make_openweather_request_def
            Let_def g location_line_get)
  qed
qed

lemma example_runtime_fields:
  "getenv_key (example_runtime key body) = key"
  "http_get (example_runtime key body) = (\<lambda>url headers. body)"
  "float_repr (example_runtime key body) = (\<lambda>q. int_str \<lfloor>q\<rfloor> @ ''.0'')"
  "str_title (example_runtime key body) = (\<lambda>s. s)"
  "fromtimestamp (example_runtime key body) = first_day"
  by (simp_all add: example_runtime_def)

lemma forecast_period_example:
  "0 \<le> t \<Longrightarrow> t < 86400 \<Longrightarrow>
   forecast_period (example_runtime key body) (period_at t (JObj [])) =
     Inr (period_block (example_runtime key body)
            \<lparr>p_time = \<lparr>year = 1970, month = 1, day = 1, hour = nat t div 3600,
                       minute = nat t div 60 mod 60\<rparr>,
             p_temp = JInt 21, p_feels_like = JInt 19, p_humidity = JInt 60,
             p_description = ''light rain'', p_wind = []\<rparr> ''N/A'')"
  using forecast_period_view [OF period_fields_period_at [of t key body "[]"]]
  by (simp add: dict_get_def wind_direction_def)

lemma pad2_examples: "pad2 (Suc 0) = ''01''" "pad2 12 = ''12''"
  by (simp_all add: pad2_def digit_char_def)

lemma period_block_example_at:
  "period_block (example_runtime key body)
     \<lparr>p_time = \<lparr>year = 1970, month = Suc 0, day = Suc 0, hour = 0, minute = m\<rparr>,
      p_temp = JInt 21, p_feels_like = JInt 19, p_humidity = JInt 60,
      p_description = ''light rain'', p_wind = []\<rparr> ''N/A''
   = ''\<newline>Thursday, January 01 at 12:'' @ pad2 m @ '' AM:''
       @ ''\<newline>Temperature: 21'' @ [CHR 0xB0] @ ''C (feels like 19''
       @ [CHR 0xB0] @ ''C)''
       @ ''\<newline>Weather: light rain\<newline>Humidity: 60%''
       @ ''\<newline>Wind: 0 m/s N/A\<newline>''"
  by (simp add: period_block_def strftime_def weekday_def days_before_year_def
        days_before_month_def is_leap_def day_names_def month_names_def digit_char_def
        py_str_def int_str_def example_runtime_def dict_get_def pad2_examples)

lemma py_repr_http [simp]: "py_repr (w\<lparr>http_get := g\<rparr>) v = py_repr w v"
  by (induction w v rule: py_repr.induct) (simp_all cong: map_cong)

lemma py_repr_http_fun [simp]: "py_repr (w\<lparr>http_get := g\<rparr>) = py_repr w"
  by (rule ext) simp

lemma py_str_http [simp]: "py_str (w\<lparr>http_get := g\<rparr>) v = py_str w v"
  by (simp add: py_str_def split: json.splits)

lemma wind_direction_http [simp]:
  "wind_direction (w\<lparr>http_get := g\<rparr>) v = wind_direction w v"
  by (cases v) (simp_all add: wind_direction_def)

lemma py_fromtimestamp_http [simp]:
  "py_fromtimestamp (w\<lparr>http_get := g\<rparr>) v = py_fromtimestamp w v"
  by (cases v) simp_all

lemma py_title_http [simp]: "py_title (w\<lparr>http_get := g\<rparr>) v = py_title w v"
  by (cases v) simp_all

lemma format_alert_http [simp]: "format_alert (w\<lparr>http_get := g\<rparr>) = format_alert w"
  by (rule ext) (simp add: format_alert_def)

lemma forecast_period_http [simp]:
  "forecast_period (w\<lparr>http_get := g\<rparr>) = forecast_period w"
  by (rule ext) (simp add: forecast_period_def)

lemma wind_direction_bucket:
  "truthy x \<Longrightarrow> wind_bucket w x = Inr k \<Longrightarrow>
     wind_direction w x = Inr (directions ! nat (k mod 16))"
  by (simp add: wind_direction_def)

lemma float_bucket_example:
  "float_bucket (example_runtime key body) = (\<lambda>q. Inr (py_int ((q + 11.25) / 22.5)))"
  by (simp add: example_runtime_def)

lemma int_to_float_example:
  "int_to_float (example_runtime key body) = (\<lambda>i. Inr (of_int i))"
  by (simp add: example_runtime_def)

section \<open>Alerts: the fixed messages and the rendered report\<close>

text \<open>
  C4. \<open>get_alerts\<close> returns exactly "Unable to fetch alerts or no alerts found." when
  the fetch yields no data or a body without a \<open>features\<close> key, and exactly
  "No active alerts for this state." when the \<open>features\<close> list of the body is empty.
\<close>

theorem get_alerts_fixed_messages:
  "((fst (make_nws_request w (NWS_API_BASE @ ''/alerts/active/area/'' @ state)) = None
      \<or> (\<exists>body. fst (make_nws_request w (NWS_API_BASE @ ''/alerts/active/area/'' @ state)) = Some body
             \<and> map_of body ''features'' = None))
     \<longrightarrow> fst (get_alerts w state) = Inr ''Unable to fetch alerts or no alerts found.'')
   \<and> ((\<exists>body. fst (make_nws_request w (NWS_API_BASE @ ''/alerts/active/area/'' @ state)) = Some body
             \<and> map_of body ''features'' = Some (JArr []))
     \<longrightarrow> fst (get_alerts w state) = Inr ''No active alerts for this state.'')"
  by (auto simp: get_alerts_def make_nws_request_def Let_def split: option.splits)

theorem get_alerts_fixed_messages_witness:
  "fst (get_alerts (example_runtime None None) ''CA'')
     = Inr ''Unable to fetch alerts or no alerts found.''
   \<and> fst (get_alerts (example_runtime None (Some [(''title'', JStr ''x'')])) ''CA'')
     = Inr ''Unable to fetch alerts or no alerts found.''
   \<and> fst (get_alerts (example_runtime None (Some [(''features'', JArr [])])) ''CA'')
     = Inr ''No active alerts for this state.''"
  using get_alerts_fixed_messages [of "example_runtime None None" "''CA''"]
    get_alerts_fixed_messages [of "example_runtime None (Some [(''title'', JStr ''x'')])" "''CA''"]
    get_alerts_fixed_messages [of "example_runtime None (Some [(''features'', JArr [])])" "''CA''"]
  by (simp add: example_runtime_def make_nws_request_def)

text \<open>
  C5. The claim is that every \<open>features\<close> list of \<open>N \<ge> 1\<close> entries yields \<open>N\<close> rendered
  blocks joined by the separator. An entry without a \<open>properties\<close> object is not
  rendered: \<open>format_alert\<close> subscripts \<open>feature["properties"]\<close> unguarded, so a list
  whose second entry has no \<open>properties\<close> key raises \<^verbatim>\<open>KeyError\<close> and yields no block at
  all, and \<open>properties\<close> null raises \<^verbatim>\<open>AttributeError\<close>.
\<close>

theorem get_alerts_raises_without_properties:
  "fst (get_alerts
          (example_runtime None
             (Some [(''features'',
                     JArr [JObj [(''properties'', JObj [(''event'', JStr ''Flood'')])],
                           JObj [(''id'', JStr ''x'')]])])) ''CA'')
     = Inl KeyError
   \<and> fst (get_alerts
            (example_runtime None
               (Some [(''features'', JArr [JObj [(''properties'', JNull)]])])) ''CA'')
     = Inl AttributeError"
  by (simp add: get_alerts_def make_nws_request_def example_runtime_def format_alert_def
        dict_get_def Let_def)

text \<open>
  On a list of alert features that each carry a \<open>properties\<close> object the report is as
  worded: the \<open>N\<close> rendered blocks, in the order of the list, joined by the separator
  line \<open>---\<close>; in a block a missing \<open>event\<close>, \<open>areaDesc\<close> or \<open>severity\<close> reads
  "Unknown", a missing \<open>description\<close> reads "No description available" and a missing
  \<open>instruction\<close> reads "No specific instructions provided" (\<open>alert_block\<close>).
\<close>

lemma get_alerts_renders_every_feature:
  assumes "fst (make_nws_request w (NWS_API_BASE @ ''/alerts/active/area/'' @ state)) = Some body"
    and "map_of body ''features'' = Some (JArr fs)"
    and "fs \<noteq> []"
    and "\<forall>f\<in>set fs. alert_props f \<noteq> None"
  shows "fst (get_alerts w state)
           = Inr (join ''\<newline>---\<newline>'' (map (\<lambda>f. alert_block w (the (alert_props f))) fs))
         \<and> length (map (\<lambda>f. alert_block w (the (alert_props f))) fs) = length fs"
proof -
  have "\<forall>f\<in>set fs. format_alert w f = Inr (alert_block w (the (alert_props f)))"
    using assms(4) by (auto intro: format_alert_props)
  then have m: "map_r (format_alert w) fs = Inr (map (\<lambda>f. alert_block w (the (alert_props f))) fs)"
    by (rule map_r_all_Inr)
  have b: "body \<noteq> []"
    using assms(2) by auto
  show ?thesis
    using assms(1) assms(2) assms(3) b m
    by (simp add: get_alerts_def make_nws_request_def Let_def)
qed

lemma get_alerts_renders_every_feature_example:
  "fst (get_alerts
          (example_runtime None
             (Some [(''features'',
                     JArr [JObj [(''properties'', JObj [])],
                           JObj [(''properties'', JObj [(''event'', JStr ''Flood'')])]])]))
          ''CA'')
     = Inr (''\<newline>Event: Unknown\<newline>Area: Unknown\<newline>Severity: Unknown''
            @ ''\<newline>Description: No description available''
            @ ''\<newline>Instructions: No specific instructions provided\<newline>''
            @ ''\<newline>---\<newline>''
            @ ''\<newline>Event: Flood\<newline>Area: Unknown\<newline>Severity: Unknown''
            @ ''\<newline>Description: No description available''
            @ ''\<newline>Instructions: No specific instructions provided\<newline>'')"
  using get_alerts_renders_every_feature
    [of "example_runtime None
             (Some [(''features'',
                     JArr [JObj [(''properties'', JObj [])],
                           JObj [(''properties'', JObj [(''event'', JStr ''Flood'')])]])])"
        "''CA''"
        "[(''features'',
                     JArr [JObj [(''properties'', JObj [])],
                           JObj [(''properties'', JObj [(''event'', JStr ''Flood'')])]])]"
        "[JObj [(''properties'', JObj [])],
                           JObj [(''properties'', JObj [(''event'', JStr ''Flood'')])]]"]
  by (simp add: example_runtime_def make_nws_request_def alert_props_def alert_block_def
        prop_or_def py_str_def)

section \<open>Forecast: the gates before the report\<close>

text \<open>
  C6. With no API key configured (\<^verbatim>\<open>os.getenv\<close> gives \<^verbatim>\<open>None\<close> or the empty string),
  \<open>get_forecast\<close> returns the fixed instructional message for every latitude and
  longitude, and the list of network requests it made is empty.
\<close>

theorem get_forecast_without_key:
  "getenv_key w = None \<or> getenv_key w = Some [] \<Longrightarrow>
     get_forecast w latitude longitude =
       (Inr ''Error: OPENWEATHER_API_KEY not found in .env file. Please add it to your .env file.'', [])"
  by (auto simp: get_forecast_def get_openweather_api_key_def no_key_message_def)

theorem get_forecast_without_key_witness:
  "get_forecast (example_runtime None (Some [(''list'', JArr [])])) 52 13 =
       (Inr ''Error: OPENWEATHER_API_KEY not found in .env file. Please add it to your .env file.'', [])
   \<and> get_forecast (example_runtime (Some []) (Some [(''list'', JArr [])])) 52 13 =
       (Inr ''Error: OPENWEATHER_API_KEY not found in .env file. Please add it to your .env file.'', [])"
  using get_forecast_without_key [of "example_runtime None (Some [(''list'', JArr [])])" 52 13]
    get_forecast_without_key [of "example_runtime (Some []) (Some [(''list'', JArr [])])" 52 13]
  by (simp add: example_runtime_def)

text \<open>
  C7. When the fetched body carries a string \<open>cod\<close> other than "200", \<open>get_forecast\<close>
  returns "Unable to fetch forecast: " followed by the text of the body's \<open>message\<close>, or
  by "Unknown error" when there is no message; for \<open>cod\<close> "404" and the message
  "city not found" it returns exactly "Unable to fetch forecast: city not found".
\<close>

theorem get_forecast_status_error:
  assumes "getenv_key w = Some api_key" and "api_key \<noteq> []"
    and "fst (make_openweather_request w
               (OPENWEATHER_API_BASE @ ''/forecast?lat='' @ float_repr w latitude @ ''&lon=''
                  @ float_repr w longitude @ ''&appid='' @ api_key @ ''&units=metric'')) = Some body"
    and "map_of body ''cod'' = Some (JStr c)" and "c \<noteq> ''200''"
  shows "fst (get_forecast w latitude longitude)
           = Inr (''Unable to fetch forecast: ''
                    @ (case map_of body ''message'' of None \<Rightarrow> ''Unknown error'' | Some m \<Rightarrow> py_str w m))
         \<and> (c = ''404'' \<and> map_of body ''message'' = Some (JStr ''city not found'')
              \<longrightarrow> fst (get_forecast w latitude longitude)
                    = Inr ''Unable to fetch forecast: city not found'')"
proof -
  have b: "body \<noteq> []"
    using assms(4) by auto
  have "fst (get_forecast w latitude longitude)
           = Inr (''Unable to fetch forecast: ''
                    @ py_str w (dict_get body ''message'' (JStr ''Unknown error'')))"
    using assms b
    by (simp add: get_forecast_def get_openweather_api_key_def make_openweather_request_def Let_def)
  then show ?thesis
    by (auto simp: py_str_dict_get prop_or_def)
qed

theorem get_forecast_status_error_witness:
  "fst (get_forecast
          (example_runtime (Some ''secret'')
             (Some [(''cod'', JStr ''404''), (''message'', JStr ''city not found'')])) 52 13)
     = Inr ''Unable to fetch forecast: city not found''
   \<and> fst (get_forecast (example_runtime (Some ''secret'') (Some [(''cod'', JStr ''500'')])) 52 13)
     = Inr ''Unable to fetch forecast: Unknown error''"
  using get_forecast_status_error
      [of "example_runtime (Some ''secret'')
             (Some [(''cod'', JStr ''404''), (''message'', JStr ''city not found'')])"
          "''secret''" 52 13 "[(''cod'', JStr ''404''), (''message'', JStr ''city not found'')]"
          "''404''"]
    get_forecast_status_error
      [of "example_runtime (Some ''secret'') (Some [(''cod'', JStr ''500'')])"
          "''secret''" 52 13 "[(''cod'', JStr ''500'')]" "''500''"]
  by (simp add: example_runtime_def make_openweather_request_def)

text \<open>
  C10. When the fetched body carries \<open>cod\<close> as the integer 200, \<open>get_forecast\<close> takes the
  error branch: it returns "Unable to fetch forecast: " followed by the text of the
  body's \<open>message\<close> or by "Unknown error", and renders no forecast.
\<close>

theorem get_forecast_numeric_status:
  assumes "getenv_key w = Some api_key" and "api_key \<noteq> []"
    and "fst (make_openweather_request w
               (OPENWEATHER_API_BASE @ ''/forecast?lat='' @ float_repr w latitude @ ''&lon=''
                  @ float_repr w longitude @ ''&appid='' @ api_key @ ''&units=metric'')) = Some body"
    and "map_of body ''cod'' = Some (JInt 200)"
  shows "fst (get_forecast w latitude longitude)
           = Inr (''Unable to fetch forecast: ''
                    @ (case map_of body ''message'' of None \<Rightarrow> ''Unknown error'' | Some m \<Rightarrow> py_str w m))"
proof -
  have b: "body \<noteq> []"
    using assms(4) by auto
  have "fst (get_forecast w latitude longitude)
           = Inr (''Unable to fetch forecast: ''
                    @ py_str w (dict_get body ''message'' (JStr ''Unknown error'')))"
    using assms b
    by (simp add: get_forecast_def get_openweather_api_key_def make_openweather_request_def Let_def)
  then show ?thesis
    by (simp add: py_str_dict_get prop_or_def)
qed

theorem get_forecast_numeric_status_witness:
  "fst (get_forecast
          (example_runtime (Some ''secret'')
             (Some [(''cod'', JInt 200), (''list'', JArr [period_at 0 (JObj [])])])) 52 13)
     = Inr ''Unable to fetch forecast: Unknown error''"
  using get_forecast_numeric_status
      [of "example_runtime (Some ''secret'')
             (Some [(''cod'', JInt 200), (''list'', JArr [period_at 0 (JObj [])])])"
          "''secret''" 52 13 "[(''cod'', JInt 200), (''list'', JArr [period_at 0 (JObj [])])]"]
  by (simp add: example_runtime_def make_openweather_request_def)

section \<open>Exceptions that escape the tools\<close>

text \<open>
  C1. The claim is that \<open>get_alerts\<close> and \<open>get_forecast\<close> return a string on every body,
  also for a feature without \<open>properties\<close>, a period without \<open>dt\<close>, \<open>main\<close> or
  \<open>weather\<close>, and an empty \<open>weather\<close> array. On those bodies the tools raise:
  \<^verbatim>\<open>KeyError\<close> for the missing keys, \<^verbatim>\<open>IndexError\<close> for the empty array.
\<close>

theorem tools_raise_on_missing_keys:
  "fst (get_alerts (example_runtime None (Some [(''features'', JArr [JObj []])])) ''CA'')
     = Inl KeyError
   \<and> fst (get_forecast
            (example_runtime (Some ''secret'')
               (Some [(''list'', JArr [JObj [(''main'', JObj []), (''weather'', JArr [])]])])) 52 13)
     = Inl KeyError
   \<and> fst (get_forecast
            (example_runtime (Some ''secret'')
               (Some [(''list'', JArr [JObj [(''dt'', JInt 0)]])])) 52 13)
     = Inl KeyError
   \<and> fst (get_forecast
            (example_runtime (Some ''secret'')
               (Some [(''list'',
                       JArr [JObj [(''dt'', JInt 0),
                                   (''main'', JObj [(''temp'', JInt 21), (''feels_like'', JInt 19),
                                                    (''humidity'', JInt 60)]),
                                   (''weather'', JArr [])]])])) 52 13)
     = Inl IndexError"
  by (simp add: get_alerts_def get_forecast_def get_openweather_api_key_def make_nws_request_def
        make_openweather_request_def example_runtime_def format_alert_def forecast_period_def
        first_day_def dict_get_def Let_def)

section \<open>Forecast: the wind direction\<close>

text \<open>
  C3. For a forecast period whose wind \<open>deg\<close> is 0 the rendered wind direction is "N/A";
  for 90 it is "E"; for 11 it is "N" (bucket 0); for 349 it is "N" (the quotient
  truncates to 16, which wraps around to bucket 0).
\<close>

theorem wind_direction_examples:
  assumes "period_fields w period = Some v"
  shows "(map_of (p_wind v) ''deg'' = Some (JInt 0)
            \<longrightarrow> forecast_period w period = Inr (period_block w v ''N/A''))
       \<and> (map_of (p_wind v) ''deg'' = Some (JInt 90)
            \<longrightarrow> forecast_period w period = Inr (period_block w v ''E''))
       \<and> (map_of (p_wind v) ''deg'' = Some (JInt 11)
            \<longrightarrow> forecast_period w period = Inr (period_block w v ''N''))
       \<and> (map_of (p_wind v) ''deg'' = Some (JInt 349)
            \<longrightarrow> forecast_period w period = Inr (period_block w v ''N''))
       \<and> wind_bucket w (JInt 11) = Inr 0
       \<and> wind_bucket w (JInt 349) = Inr 16"
proof -
  have "wind_direction w (JInt 0) = Inr ''N/A''"
    by (simp add: wind_direction_def)
  moreover have "wind_direction w (JInt 90) = Inr ''E''"
    by (simp add: wind_direction_def wind_bucket_int directions_def del: wind_bucket.simps)
  moreover have "wind_direction w (JInt 11) = Inr ''N''"
    by (simp add: wind_direction_def wind_bucket_int directions_def del: wind_bucket.simps)
  moreover have "wind_direction w (JInt 349) = Inr ''N''"
    by (simp add: wind_direction_def wind_bucket_int directions_def del: wind_bucket.simps)
  moreover have "wind_bucket w (JInt 11) = Inr 0" "wind_bucket w (JInt 349) = Inr 16"
    by (simp_all add: wind_bucket_int del: wind_bucket.simps)
  ultimately show ?thesis
    by (simp add: forecast_period_view [OF assms] dict_get_def del: wind_bucket.simps)
qed

theorem wind_direction_examples_witness:
  "forecast_period (example_runtime None None) (period_at 0 (JObj [(''speed'', JInt 3), (''deg'', JInt 0)]))
     = Inr (''\<newline>Thursday, January 01 at 12:00 AM:''
            @ ''\<newline>Temperature: 21'' @ [CHR 0xB0] @ ''C (feels like 19'' @ [CHR 0xB0] @ ''C)''
            @ ''\<newline>Weather: light rain\<newline>Humidity: 60%\<newline>Wind: 3 m/s N/A\<newline>'')
   \<and> forecast_period (example_runtime None None) (period_at 0 (JObj [(''speed'', JInt 3), (''deg'', JInt 90)]))
     = Inr (''\<newline>Thursday, January 01 at 12:00 AM:''
            @ ''\<newline>Temperature: 21'' @ [CHR 0xB0] @ ''C (feels like 19'' @ [CHR 0xB0] @ ''C)''
            @ ''\<newline>Weather: light rain\<newline>Humidity: 60%\<newline>Wind: 3 m/s E\<newline>'')
   \<and> forecast_period (example_runtime None None) (period_at 0 (JObj [(''speed'', JInt 3), (''deg'', JInt 11)]))
     = Inr (''\<newline>Thursday, January 01 at 12:00 AM:''
            @ ''\<newline>Temperature: 21'' @ [CHR 0xB0] @ ''C (feels like 19'' @ [CHR 0xB0] @ ''C)''
            @ ''\<newline>Weather: light rain\<newline>Humidity: 60%\<newline>Wind: 3 m/s N\<newline>'')
   \<and> forecast_period (example_runtime None None) (period_at 0 (JObj [(''speed'', JInt 3), (''deg'', JInt 349)]))
     = Inr (''\<newline>Thursday, January 01 at 12:00 AM:''
            @ ''\<newline>Temperature: 21'' @ [CHR 0xB0] @ ''C (feels like 19'' @ [CHR 0xB0] @ ''C)''
            @ ''\<newline>Weather: light rain\<newline>Humidity: 60%\<newline>Wind: 3 m/s N\<newline>'')"
  using wind_direction_examples [OF period_fields_period_at [of 0 None None "[(''speed'', JInt 3), (''deg'', JInt 0)]"]]
    wind_direction_examples [OF period_fields_period_at [of 0 None None "[(''speed'', JInt 3), (''deg'', JInt 90)]"]]
    wind_direction_examples [OF period_fields_period_at [of 0 None None "[(''speed'', JInt 3), (''deg'', JInt 11)]"]]
    wind_direction_examples [OF period_fields_period_at [of 0 None None "[(''speed'', JInt 3), (''deg'', JInt 349)]"]]
  by (simp add: period_block_def strftime_def weekday_def days_before_year_def
        days_before_month_def is_leap_def day_names_def month_names_def pad2_def digit_char_def
        py_str_def int_str_def dict_get_def example_runtime_def del: wind_bucket.simps)

text \<open>
  C2. The claim computes the bucket as \<open>round((degrees + 11.25) / 22.5) mod 16\<close>. The code
  truncates the quotient: at 11 degrees it renders "N" (bucket 0), where the rounded
  quotient is 1, the bucket of "NNE".
\<close>

theorem wind_bucket_rounds_counterexample:
  "forecast_period (example_runtime None None) (period_at 0 (JObj [(''deg'', JInt 11)]))
     = Inr (period_block (example_runtime None None)
              (the (period_fields (example_runtime None None) (period_at 0 (JObj [(''deg'', JInt 11)]))))
              ''N'')
   \<and> directions ! nat (spec_bucket 11) = ''NNE''"
proof -
  have "directions ! nat (spec_bucket 11) = ''NNE''"
    by (simp add: spec_bucket_def round_def directions_def)
  moreover have "wind_direction (example_runtime None None) (JInt 11) = Inr ''N''"
    by (simp add: wind_direction_def directions_def)
  ultimately show ?thesis
    using forecast_period_view [OF period_fields_period_at [of 0 None None "[(''deg'', JInt 11)]"]]
    by (simp add: period_fields_period_at dict_get_def del: wind_bucket.simps)
qed

text \<open>
  C2, as the code has it. For a well-formed period: when the \<open>deg\<close> value is absent or
  falsy the rendered direction is "N/A"; otherwise it is the entry of the list N, NNE,
  ..., NNW at the index \<open>int((deg + 11.25) / 22.5) mod 16\<close>, where \<open>int\<close> truncates
  towards zero and the sum and the quotient are double-precision operations; the index
  is always inside the list. For a non-zero integer \<open>deg\<close> below \<open>2 ^ 50\<close> in magnitude
  the bucket is the truncation of the exact quotient, and for positive degrees that is
  \<open>round(deg / 22.5)\<close>: the offset 11.25 is the half bucket that turns truncation into
  rounding to the nearest compass point. For a non-zero float \<open>deg\<close>, and for an integer
  from \<open>2 ^ 50\<close> on (converted to a float first), the bucket is what the runtime
  computes for \<open>int((deg + 11.25) / 22.5)\<close> in double precision. The JSON value \<open>true\<close>
  counts as 1 and renders "N".
\<close>

theorem wind_direction_truncates:
  assumes "period_fields w period = Some v"
  shows "((case map_of (p_wind v) ''deg'' of None \<Rightarrow> True | Some x \<Rightarrow> \<not> truthy x)
            \<longrightarrow> forecast_period w period = Inr (period_block w v ''N/A''))
       \<and> (\<forall>d. map_of (p_wind v) ''deg'' = Some (JInt d) \<and> d \<noteq> 0 \<and> \<bar>d\<bar> < 2 ^ 50
            \<longrightarrow> forecast_period w period
                  = Inr (period_block w v
                          (directions ! nat (py_int ((of_int d + 11.25) / 22.5) mod 16)))
                \<and> nat (py_int ((of_int d + 11.25) / 22.5) mod 16) < length directions)
       \<and> (\<forall>d. 0 < d \<longrightarrow> py_int ((of_int d + 11.25) / 22.5) = round (of_int d / 22.5 :: rat))
       \<and> (\<forall>q k. map_of (p_wind v) ''deg'' = Some (JFloat q) \<and> q \<noteq> 0 \<and> float_bucket w q = Inr k
            \<longrightarrow> forecast_period w period
                  = Inr (period_block w v (directions ! nat (k mod 16)))
                \<and> nat (k mod 16) < length directions)
       \<and> (\<forall>d f k. map_of (p_wind v) ''deg'' = Some (JInt d) \<and> 2 ^ 50 \<le> \<bar>d\<bar>
                   \<and> int_to_float w d = Inr f \<and> float_bucket w f = Inr k
            \<longrightarrow> forecast_period w period
                  = Inr (period_block w v (directions ! nat (k mod 16)))
                \<and> nat (k mod 16) < length directions)
       \<and> (map_of (p_wind v) ''deg'' = Some (JBool True)
            \<longrightarrow> forecast_period w period = Inr (period_block w v ''N''))"
proof (intro conjI allI impI)
  assume "case map_of (p_wind v) ''deg'' of None \<Rightarrow> True | Some x \<Rightarrow> \<not> truthy x"
  then have "\<not> truthy (dict_get (p_wind v) ''deg'' (JInt 0))"
    by (simp add: dict_get_def split: option.splits)
  then show "forecast_period w period = Inr (period_block w v ''N/A'')"
    by (simp add: forecast_period_view [OF assms] wind_direction_falsy)
next
  fix d
  assume a: "map_of (p_wind v) ''deg'' = Some (JInt d) \<and> d \<noteq> 0 \<and> \<bar>d\<bar> < 2 ^ 50"
  then have "dict_get (p_wind v) ''deg'' (JInt 0) = JInt d"
    by (simp add: dict_get_def)
  then show "forecast_period w period
               = Inr (period_block w v (directions ! nat (py_int ((of_int d + 11.25) / 22.5) mod 16)))"
    using a by (simp add: forecast_period_view [OF assms] wind_direction_int del: wind_bucket.simps)
next
  fix d :: int
  show "nat (py_int ((of_int d + 11.25) / 22.5) mod 16) < length directions"
    by (rule wind_index_range)
next
  fix d :: int
  assume "0 < d"
  then show "py_int ((of_int d + 11.25) / 22.5) = round (of_int d / 22.5 :: rat)"
    by (rule trunc_is_round)
next
  fix q k
  assume a: "map_of (p_wind v) ''deg'' = Some (JFloat q) \<and> q \<noteq> 0 \<and> float_bucket w q = Inr k"
  then have g: "dict_get (p_wind v) ''deg'' (JInt 0) = JFloat q"
    by (simp add: dict_get_def)
  have "wind_direction w (JFloat q) = Inr (directions ! nat (k mod 16))"
    using a by (intro wind_direction_bucket) simp_all
  then show "forecast_period w period = Inr (period_block w v (directions ! nat (k mod 16)))"
    by (simp add: forecast_period_view [OF assms] g)
next
  fix k :: int
  show "nat (k mod 16) < length directions"
    by (rule wind_index_range)
next
  fix d f k
  assume a: "map_of (p_wind v) ''deg'' = Some (JInt d) \<and> 2 ^ 50 \<le> \<bar>d\<bar>
               \<and> int_to_float w d = Inr f \<and> float_bucket w f = Inr k"
  then have g: "dict_get (p_wind v) ''deg'' (JInt 0) = JInt d"
    by (simp add: dict_get_def)
  from a have "d \<noteq> 0"
    by auto
  moreover from a have "wind_bucket w (JInt d) = Inr k"
    by simp
  ultimately have "wind_direction w (JInt d) = Inr (directions ! nat (k mod 16))"
    by (intro wind_direction_bucket) simp_all
  then show "forecast_period w period = Inr (period_block w v (directions ! nat (k mod 16)))"
    by (simp add: forecast_period_view [OF assms] g)
next
  fix k :: int
  show "nat (k mod 16) < length directions"
    by (rule wind_index_range)
next
  assume a: "map_of (p_wind v) ''deg'' = Some (JBool True)"
  then have g: "dict_get (p_wind v) ''deg'' (JInt 0) = JBool True"
    by (simp add: dict_get_def)
  have "wind_direction w (JBool True) = Inr ''N''"
    by (simp add: wind_direction_def directions_def)
  then show "forecast_period w period = Inr (period_block w v ''N'')"
    by (simp add: forecast_period_view [OF assms] g)
qed

theorem wind_direction_truncates_witness:
  "forecast_period (example_runtime None None) (period_at 0 (JObj []))
     = Inr (''\<newline>Thursday, January 01 at 12:00 AM:''
            @ ''\<newline>Temperature: 21'' @ [CHR 0xB0] @ ''C (feels like 19'' @ [CHR 0xB0] @ ''C)''
            @ ''\<newline>Weather: light rain\<newline>Humidity: 60%\<newline>Wind: 0 m/s N/A\<newline>'')
   \<and> forecast_period (example_runtime None None) (period_at 0 (JObj [(''deg'', JInt 11)]))
     = Inr (''\<newline>Thursday, January 01 at 12:00 AM:''
            @ ''\<newline>Temperature: 21'' @ [CHR 0xB0] @ ''C (feels like 19'' @ [CHR 0xB0] @ ''C)''
            @ ''\<newline>Weather: light rain\<newline>Humidity: 60%\<newline>Wind: 0 m/s N\<newline>'')
   \<and> forecast_period (example_runtime None None) (period_at 0 (JObj [(''deg'', JInt (- 40))]))
     = Inr (''\<newline>Thursday, January 01 at 12:00 AM:''
            @ ''\<newline>Temperature: 21'' @ [CHR 0xB0] @ ''C (feels like 19'' @ [CHR 0xB0] @ ''C)''
            @ ''\<newline>Weather: light rain\<newline>Humidity: 60%\<newline>Wind: 0 m/s NNW\<newline>'')
   \<and> forecast_period (example_runtime None None) (period_at 0 (JObj [(''deg'', JFloat 90.5)]))
     = Inr (''\<newline>Thursday, January 01 at 12:00 AM:''
            @ ''\<newline>Temperature: 21'' @ [CHR 0xB0] @ ''C (feels like 19'' @ [CHR 0xB0] @ ''C)''
            @ ''\<newline>Weather: light rain\<newline>Humidity: 60%\<newline>Wind: 0 m/s E\<newline>'')
   \<and> forecast_period (example_runtime None None) (period_at 0 (JObj [(''deg'', JInt (2 ^ 50 + 90))]))
     = Inr (''\<newline>Thursday, January 01 at 12:00 AM:''
            @ ''\<newline>Temperature: 21'' @ [CHR 0xB0] @ ''C (feels like 19'' @ [CHR 0xB0] @ ''C)''
            @ ''\<newline>Weather: light rain\<newline>Humidity: 60%\<newline>Wind: 0 m/s W\<newline>'')
   \<and> forecast_period (example_runtime None None) (period_at 0 (JObj [(''deg'', JBool True)]))
     = Inr (''\<newline>Thursday, January 01 at 12:00 AM:''
            @ ''\<newline>Temperature: 21'' @ [CHR 0xB0] @ ''C (feels like 19'' @ [CHR 0xB0] @ ''C)''
            @ ''\<newline>Weather: light rain\<newline>Humidity: 60%\<newline>Wind: 0 m/s N\<newline>'')"
  (is "?c1 \<and> ?c2 \<and> ?c3 \<and> ?c4 \<and> ?c5 \<and> ?c6")
proof (intro conjI)
  note e = period_block_example dict_get_def directions_def py_str_def int_str_def digit_char_def
  show ?c1
    using wind_direction_truncates [OF period_fields_period_at [of 0 None None "[]"]]
    by (simp add: e)
  show ?c2
    using wind_direction_truncates [OF period_fields_period_at [of 0 None None "[(''deg'', JInt 11)]"]]
    by (simp add: e)
  show ?c3
    using wind_direction_truncates [OF period_fields_period_at [of 0 None None "[(''deg'', JInt (- 40))]"]]
    by (simp add: e)
  show ?c4
    using wind_direction_truncates [OF period_fields_period_at [of 0 None None "[(''deg'', JFloat 90.5)]"],
        THEN conjunct2, THEN conjunct2, THEN conjunct2, THEN conjunct1, rule_format,
        of "90.5" 4]
    by (simp add: e float_bucket_example)
  show ?c5
    using wind_direction_truncates [OF period_fields_period_at [of 0 None None "[(''deg'', JInt (2 ^ 50 + 90))]"],
        THEN conjunct2, THEN conjunct2, THEN conjunct2, THEN conjunct2, THEN conjunct1,
        rule_format, of "2 ^ 50 + 90" "of_int (2 ^ 50 + 90)"
        "py_int ((of_int (2 ^ 50 + 90) + 11.25) / 22.5)"]
    by (simp add: e float_bucket_example int_to_float_example)
  show ?c6
    using wind_direction_truncates [OF period_fields_period_at [of 0 None None "[(''deg'', JBool True)]"]]
    by (simp add: e)
qed

section \<open>Forecast: the report\<close>

text \<open>
  C8. The claim is that every body without a \<open>list\<close> key yields "No forecast data
  available.". The status check comes first: the body with \<open>cod\<close> "404" and the
  message "city not found" has no \<open>list\<close> key and yields the status error.
\<close>

theorem no_list_status_error_counterexample:
  "map_of [(''cod'', JStr ''404''), (''message'', JStr ''city not found'')] ''list'' = None
   \<and> fst (get_forecast
            (example_runtime (Some ''secret'')
               (Some [(''cod'', JStr ''404''), (''message'', JStr ''city not found'')])) 52 13)
       = Inr ''Unable to fetch forecast: city not found''
   \<and> fst (get_forecast
            (example_runtime (Some ''secret'')
               (Some [(''cod'', JStr ''404''), (''message'', JStr ''city not found'')])) 52 13)
       \<noteq> Inr ''No forecast data available.''"
  by (simp add: get_forecast_def get_openweather_api_key_def make_openweather_request_def
        example_runtime_def dict_get_def Let_def)

text \<open>
  C8, as the code has it. For a non-empty fetched body that passes the status check (no
  \<open>cod\<close>, or \<open>cod\<close> "200") and whose \<open>city\<close> is absent or an object: when the \<open>list\<close>
  key is absent or the list is empty, \<open>get_forecast\<close> returns exactly "No forecast data
  available."; when the list has at least five periods and the first five render, the
  result is the header line, the line of fifty \<open>=\<close> and exactly five blocks, the
  renderings of the first five periods in the order of the list, joined by newlines.
\<close>

theorem get_forecast_report:
  assumes "getenv_key w = Some api_key" and "api_key \<noteq> []"
    and "fst (make_openweather_request w
               (OPENWEATHER_API_BASE @ ''/forecast?lat='' @ float_repr w latitude @ ''&lon=''
                  @ float_repr w longitude @ ''&appid='' @ api_key @ ''&units=metric'')) = Some body"
    and "body \<noteq> []"
    and "map_of body ''cod'' = None \<or> map_of body ''cod'' = Some (JStr ''200'')"
    and "obj_or_empty (map_of body ''city'') = Some city"
  shows "((map_of body ''list'' = None \<or> map_of body ''list'' = Some (JArr []))
            \<longrightarrow> fst (get_forecast w latitude longitude) = Inr ''No forecast data available.'')
       \<and> (\<forall>ps. map_of body ''list'' = Some (JArr ps) \<and> 5 \<le> length ps
                 \<and> (\<forall>p\<in>set (take 5 ps). \<exists>s. forecast_period w p = Inr s)
            \<longrightarrow> fst (get_forecast w latitude longitude)
                  = Inr (join ''\<newline>''
                           (location_line w city # replicate 50 CHR ''=''
                              # map (\<lambda>p. projr (forecast_period w p)) (take 5 ps)))
                \<and> length (map (\<lambda>p. projr (forecast_period w p)) (take 5 ps)) = 5)"
proof (intro conjI allI impI)
  assume "map_of body ''list'' = None \<or> map_of body ''list'' = Some (JArr [])"
  then have "\<not> truthy (dict_get body ''list'' (JArr []))"
    by (auto simp: dict_get_def)
  then show "fst (get_forecast w latitude longitude) = Inr ''No forecast data available.''"
    by (simp add: get_forecast_fetched [OF assms])
next
  fix ps
  assume a: "map_of body ''list'' = Some (JArr ps) \<and> 5 \<le> length ps
               \<and> (\<forall>p\<in>set (take 5 ps). \<exists>s. forecast_period w p = Inr s)"
  then have l: "dict_get body ''list'' (JArr []) = JArr ps" and ne: "ps \<noteq> []"
    by (auto simp: dict_get_def)
  have m: "map_r (forecast_period w) (take 5 ps)
             = Inr (map (\<lambda>p. projr (forecast_period w p)) (take 5 ps))"
    using a by (intro map_r_projr) simp
  show "fst (get_forecast w latitude longitude)
          = Inr (join ''\<newline>''
                   (location_line w city # replicate 50 CHR ''=''
                      # map (\<lambda>p. projr (forecast_period w p)) (take 5 ps)))"
    by (simp add: get_forecast_fetched [OF assms] l ne m)
next
  fix ps
  assume "map_of body ''list'' = Some (JArr ps) \<and> 5 \<le> length ps
               \<and> (\<forall>p\<in>set (take 5 ps). \<exists>s. forecast_period w p = Inr s)"
  then show "length (map (\<lambda>p. projr (forecast_period w p)) (take 5 ps)) = 5"
    by simp
qed

theorem get_forecast_report_witness:
  "fst (get_forecast (example_runtime (Some ''secret'') (Some example_body)) 52 13)
     = Inr (join ''\<newline>''
              (''Forecast for Berlin, DE'' # replicate 50 CHR ''=''
                 # map (\<lambda>mm. ''\<newline>Thursday, January 01 at 12:'' @ mm @ '' AM:''
                          @ ''\<newline>Temperature: 21'' @ [CHR 0xB0] @ ''C (feels like 19''
                          @ [CHR 0xB0] @ ''C)''
                          @ ''\<newline>Weather: light rain\<newline>Humidity: 60%''
                          @ ''\<newline>Wind: 0 m/s N/A\<newline>'')
                     [''00'', ''10'', ''20'', ''30'', ''40'']))
   \<and> fst (get_forecast (example_runtime (Some ''secret'') (Some [(''cod'', JStr ''200'')])) 52 13)
     = Inr ''No forecast data available.''"
proof -
  let ?w = "example_runtime (Some ''secret'') (Some example_body)"
  let ?v = "example_runtime (Some ''secret'') (Some [(''cod'', JStr ''200'')])"
  have p: "pad2 0 = ''00''" "pad2 10 = ''10''" "pad2 20 = ''20''" "pad2 30 = ''30''" "pad2 40 = ''40''"
    by (simp_all add: pad2_def digit_char_def)
  have 1: "fst (get_forecast ?w 52 13)
     = Inr (join ''\<newline>''
              (''Forecast for Berlin, DE'' # replicate 50 CHR ''=''
                 # map (\<lambda>mm. ''\<newline>Thursday, January 01 at 12:'' @ mm @ '' AM:''
                          @ ''\<newline>Temperature: 21'' @ [CHR 0xB0] @ ''C (feels like 19''
                          @ [CHR 0xB0] @ ''C)''
                          @ ''\<newline>Weather: light rain\<newline>Humidity: 60%''
                          @ ''\<newline>Wind: 0 m/s N/A\<newline>'')
                     [''00'', ''10'', ''20'', ''30'', ''40'']))"
    using get_forecast_report
      [of ?w "''secret''" 52 13 example_body
          "[(''name'', JStr ''Berlin''), (''country'', JStr ''DE'')]"]
    by (simp add: example_body_def example_runtime_fields make_openweather_request_def
          obj_or_empty_def forecast_period_example period_block_example_at p location_line_def prop_or_def)
  have 2: "fst (get_forecast ?v 52 13) = Inr ''No forecast data available.''"
    using get_forecast_report [of ?v "''secret''" 52 13 "[(''cod'', JStr ''200'')]" "[]"]
    by (simp add: example_runtime_fields make_openweather_request_def obj_or_empty_def)
  from 1 2 show ?thesis by (rule conjI)
qed

section \<open>Determinism\<close>



end
